theory Spec2Isabelle
  imports Complex_Main "HOL-Library.Option_ord"
begin

section \<open>Python values shared by the modules\<close>

text \<open>
  Exceptions the modelled code can raise. The three \<open>ValueError\<close>s raised with a message
  by \<open>specifications.py\<close> are kept apart by their raise site; \<open>ValueError_max_empty\<close> is
  the one the builtin \<open>max\<close> raises on an empty sequence.
\<close>

datatype error =
    IndexError
  | TypeError
  | KeyError
  | ValueError_window
  | ValueError_location
  | ValueError_no_criteria
  | ValueError_max_empty

text \<open>
  A \<open>datetime.date\<close> is its proleptic ordinal (a day number), so that \<open>(b - a).days\<close> is
  integer subtraction and the comparison of dates is the comparison of integers.
\<close>

type_synonym date = int

text \<open>
  \<open>str.lower\<close> and \<open>str.upper\<close> on ASCII text: a character is a byte, and only the
  letters \<open>A\<close>..\<open>Z\<close> and \<open>a\<close>..\<open>z\<close> change.
\<close>

definition lower_char :: "char \<Rightarrow> char" where
  "lower_char c =
     (let n = (of_char c :: nat) in if 65 \<le> n \<and> n \<le> 90 then char_of (n + 32) else c)"

definition upper_char :: "char \<Rightarrow> char" where
  "upper_char c =
     (let n = (of_char c :: nat) in if 97 \<le> n \<and> n \<le> 122 then char_of (n - 32) else c)"

definition lower :: "string \<Rightarrow> string" where
  "lower s = map lower_char s"

definition upper :: "string \<Rightarrow> string" where
  "upper s = map upper_char s"

text \<open>
  \<open>round(x, 1)\<close>: the nearest multiple of one tenth, a tie going to the even multiple.
  The quotient \<open>days / 365\<close> and its rounding are taken in exact rational arithmetic; a
  quotient of an integer by 365 is never half-way between two tenths.
\<close>

definition round1 :: "rat \<Rightarrow> rat" where
  "round1 x =
     (let scaled = x * 10;
          below = \<lfloor>scaled\<rfloor>;
          rest = scaled - of_int below
      in of_int (if rest < 1 / 2 then below
                 else if 1 / 2 < rest then below + 1
                 else if even below then below else below + 1) / 10)"

section \<open>constants.py\<close>

definition EU_COUNTRIES :: "string set" where
  "EU_COUNTRIES = set
     [''Austria'', ''Belgium'', ''Bulgaria'', ''Croatia'', ''Cyprus'', ''Czech Republic'',
      ''Denmark'', ''Estonia'', ''Finland'', ''France'', ''Germany'', ''Greece'', ''Hungary'',
      ''Ireland'', ''Italy'', ''Latvia'', ''Lithuania'', ''Luxembourg'', ''Malta'',
      ''Netherlands'', ''Poland'', ''Portugal'', ''Romania'', ''Slovakia'', ''Slovenia'',
      ''Spain'', ''Sweden'']"

definition FAANG :: "string set" where
  "FAANG = set [''facebook'', ''meta'', ''apple'', ''amazon'', ''netflix'', ''google'']"

definition NUMBER_OF_DAYS_IN_ONE_YEAR :: int where
  "NUMBER_OF_DAYS_IN_ONE_YEAR = 365"

section \<open>utils.py\<close>

definition comparison_functions :: "string \<Rightarrow> (rat \<Rightarrow> rat \<Rightarrow> bool) option" where
  "comparison_functions operand =
     (if operand = ''>'' then Some (\<lambda>x y. x > y)
      else if operand = ''>='' then Some (\<lambda>x y. x \<ge> y)
      else if operand = ''<'' then Some (\<lambda>x y. x < y)
      else if operand = ''<='' then Some (\<lambda>x y. x \<le> y)
      else if operand = ''=='' then Some (\<lambda>x y. x = y)
      else None)"

text \<open>
  \<open>merge_intervals\<close>. The result list starts as \<open>[intervals[0]]\<close>, which raises
  \<open>IndexError\<close> on an empty list. The loop runs over \<open>intervals[1:]\<close>; it either
  overwrites the end of the last result interval or appends a new interval.
\<close>

fun merge_loop :: "(date \<times> date) list \<Rightarrow> (date \<times> date) list \<Rightarrow> (date \<times> date) list" where
  "merge_loop non_overlapping_intervals [] = non_overlapping_intervals"
| "merge_loop non_overlapping_intervals ((start, stop) # rest) =
     (let previous_end = snd (last non_overlapping_intervals) in
      if start \<le> previous_end
      then merge_loop (butlast non_overlapping_intervals @
             [(fst (last non_overlapping_intervals), max previous_end stop)]) rest
      else merge_loop (non_overlapping_intervals @ [(start, stop)]) rest)"

definition merge_intervals :: "(date \<times> date) list \<Rightarrow> error + (date \<times> date) list" where
  "merge_intervals intervals =
     (case intervals of
        [] \<Rightarrow> Inl IndexError
      | first # rest \<Rightarrow> Inr (merge_loop [first] rest))"

text \<open>\<open>LowerCaseFrozenSet(data)\<close>: the set of the lower-cased members of \<open>data\<close>.\<close>

definition LowerCaseFrozenSet :: "string set \<Rightarrow> string set" where
  "LowerCaseFrozenSet data = lower ` data"

text \<open>
  \<open>has_intersection_or_is_subset\<close>. The test \<open>if number_of_hits:\<close> is Python truthiness:
  it fails for \<open>None\<close> and for \<open>0\<close>.
\<close>

definition has_intersection_or_is_subset :: "string set \<Rightarrow> string set \<Rightarrow> int option \<Rightarrow> bool" where
  "has_intersection_or_is_subset set_to_evaluate required_set number_of_hits =
     (case number_of_hits of
        Some k \<Rightarrow>
          if k \<noteq> 0 then int (card (set_to_evaluate \<inter> required_set)) = k
          else required_set \<subseteq> set_to_evaluate
      | None \<Rightarrow> required_set \<subseteq> set_to_evaluate)"

section \<open>profile_schema.py\<close>

record location =
  city :: string
  country :: string

text \<open>
  An \<open>Experience\<close>. \<open>ends_at\<close> is \<open>Optional[date]\<close>: \<open>None\<close> until the validator of
  \<open>Profile\<close> has replaced it.
\<close>

record experience =
  company_name :: string
  job_title :: string
  exp_description :: string
  exp_skills :: "string list"
  starts_at :: date
  ends_at :: "date option"
  exp_location :: location

record profile =
  first_name :: string
  last_name :: string
  skills :: "string list"
  description :: string
  location :: location
  experiences :: "experience list"

text \<open>
  The root validator \<open>check_start_date_precedes_end_date\<close>. Its loop is
  \<open>for idx, experience in enumerate(experiences)\<close> over the very list it deletes from:
  the list iterator reads position \<open>idx\<close> of the current list while \<open>idx\<close> is below the
  current length, and \<open>idx\<close> grows by one each round whether or not \<open>del experiences[idx]\<close>
  ran. \<open>today\<close> is the value of \<open>date.today()\<close>. The message it prints is not modelled.
\<close>

function check_loop :: "date \<Rightarrow> nat \<Rightarrow> experience list \<Rightarrow> experience list" where
  "check_loop today idx exps =
     (if idx < length exps then
        let stop = (case ends_at (exps ! idx) of None \<Rightarrow> today | Some d \<Rightarrow> d);
            exps' = exps[idx := (exps ! idx)\<lparr>ends_at := Some stop\<rparr>]
        in if starts_at (exps ! idx) \<ge> stop
           then check_loop today (idx + 1) (take idx exps' @ drop (idx + 1) exps')
           else check_loop today (idx + 1) exps'
      else exps)"
  by pat_completeness auto
termination
  by (relation "measure (\<lambda>(today, idx, exps). length exps - idx)") auto

definition check_start_date_precedes_end_date :: "date \<Rightarrow> profile \<Rightarrow> profile" where
  "check_start_date_precedes_end_date today values =
     values\<lparr>experiences := check_loop today 0 (experiences values)\<rparr>"

text \<open>
  \<open>_get_experiences_sorted_by\<close>: \<open>sorted\<close> is stable, as \<open>sort_key\<close> is. Sorting two or
  more experiences by \<open>ends_at\<close> compares every key with another one, and comparing
  \<open>None\<close> with anything raises \<open>TypeError\<close>; a list of at most one element is copied
  without a comparison.
\<close>

datatype sorting_criteria = Starts_at | Ends_at

definition get_experiences_sorted_by :: "profile \<Rightarrow> sorting_criteria \<Rightarrow> error + experience list" where
  "get_experiences_sorted_by self criteria =
     (case criteria of
        Starts_at \<Rightarrow> Inr (sort_key starts_at (experiences self))
      | Ends_at \<Rightarrow>
          if 2 \<le> length (experiences self) \<and> None \<in> ends_at ` set (experiences self)
          then Inl TypeError
          else Inr (sort_key ends_at (experiences self)))"

text \<open>
  The slice \<open>xs[start : stop : -1]\<close>: a negative bound counts from the end, and a bound
  outside the list is clamped to \<open>-1\<close> below and to \<open>len - 1\<close> above; the positions
  \<open>start, start - 1, ...\<close> above \<open>stop\<close> are read.
\<close>

definition slice_bound :: "int \<Rightarrow> int \<Rightarrow> int" where
  "slice_bound len i =
     (if i < 0 then (if i + len < 0 then - 1 else i + len)
      else if len \<le> i then len - 1 else i)"

definition slice_backwards :: "'a list \<Rightarrow> int \<Rightarrow> int \<Rightarrow> 'a list" where
  "slice_backwards xs start stop =
     (let len = int (length xs)
      in map (\<lambda>i. xs ! nat i) (rev [slice_bound len stop + 1 .. slice_bound len start]))"

definition get_n_last_experiences :: "profile \<Rightarrow> int \<Rightarrow> error + experience list" where
  "get_n_last_experiences self n =
     (case get_experiences_sorted_by self Ends_at of
        Inl err \<Rightarrow> Inl err
      | Inr sorted_experiences \<Rightarrow>
          if int (length sorted_experiences) \<le> n then Inr sorted_experiences
          else Inr (slice_backwards sorted_experiences (- 1) (- n - 1)))"

text \<open>
  The pairs \<open>[starts_at, ends_at]\<close> of a list of experiences; \<open>None\<close> when some
  \<open>ends_at\<close> is still \<open>None\<close>.
\<close>

definition intervals_of :: "experience list \<Rightarrow> (date \<times> date) list option" where
  "intervals_of exps = those (map (\<lambda>e. map_option (\<lambda>stop. (starts_at e, stop)) (ends_at e)) exps)"

definition days_of :: "(date \<times> date) list \<Rightarrow> int" where
  "days_of intervals = sum_list (map (\<lambda>(start, stop). stop - start) intervals)"

text \<open>
  \<open>count_years_of_experience\<close>. An experience whose \<open>ends_at\<close> is \<open>None\<close> makes every
  path raise \<open>TypeError\<close>: in \<open>merge_intervals\<close> at \<open>start <= previous_end\<close> or at
  \<open>max(previous_end, end)\<close>, otherwise at \<open>end - start\<close>. With dates everywhere, the only
  exception left is the \<open>IndexError\<close> of \<open>merge_intervals\<close>.
\<close>

definition count_years_of_experience :: "profile \<Rightarrow> bool \<Rightarrow> error + rat" where
  "count_years_of_experience self count_overlapping_experiences =
     (case get_experiences_sorted_by self Starts_at of
        Inl err \<Rightarrow> Inl err
      | Inr sorted_experiences \<Rightarrow>
          (case intervals_of sorted_experiences of
             None \<Rightarrow> Inl TypeError
           | Some intervals \<Rightarrow>
               (case (if \<not> count_overlapping_experiences then merge_intervals intervals
                      else Inr intervals) of
                  Inl err \<Rightarrow> Inl err
                | Inr intervals' \<Rightarrow>
                    Inr (round1 (of_int (days_of intervals') / of_int NUMBER_OF_DAYS_IN_ONE_YEAR)))))"

section \<open>specifications.py\<close>

datatype base_specification =
    AndSpecification base_specification base_specification
  | EmployerNameSpecification "string set" int
  | LocationSpecification "string set"
  | TotalWorkExperienceSpecification rat string bool
  | SkillsSpecification "string set" "int option"
  | SkillsAtWorkSpecification "string set" "int option" "int option"
  | PositionSpecification "string set" "int option"
  | WorkExperienceLengthSpecification rat string int

text \<open>
  What an unsatisfied leaf prints, one constructor for each \<open>print\<close>, with the
  candidate's first and last name where the text has them. Standard output is the list
  of the messages printed so far.
\<close>

datatype message =
    Employer_message string string
  | Location_message string string
  | Total_experience_message string string
  | Skills_message string string
  | Skills_at_work_message string string
  | Position_message
  | Experience_length_message

text \<open>
  \<open>get_n_last_experiences\<close> called with the result of
  \<open>criteria_value.get('check_last_n_experiences')\<close>, which may be \<open>None\<close>: then
  \<open>len(sorted_experiences) <= n\<close> raises \<open>TypeError\<close>, if the sorting has not raised it.
\<close>

definition get_n_last_experiences_opt :: "profile \<Rightarrow> int option \<Rightarrow> error + experience list" where
  "get_n_last_experiences_opt self n =
     (case n of None \<Rightarrow> Inl TypeError | Some k \<Rightarrow> get_n_last_experiences self k)"

text \<open>\<open>max(first :: rest, key = key)\<close>: the first element whose key is the greatest.\<close>

definition max_key :: "('a \<Rightarrow> int) \<Rightarrow> 'a \<Rightarrow> 'a list \<Rightarrow> 'a" where
  "max_key key first rest = foldl (\<lambda>best x. if key best < key x then x else best) first rest"

text \<open>
  \<open>is_satisfied_by\<close>, with standard output passed through. \<open>a and b\<close> evaluates \<open>b\<close>
  only when \<open>a\<close> is true. An exception leaves what was printed before it.
\<close>

fun is_satisfied_by :: "base_specification \<Rightarrow> profile \<Rightarrow> message list \<Rightarrow> (error + bool) \<times> message list" where
  "is_satisfied_by (AndSpecification first second) candidate out =
     (case is_satisfied_by first candidate out of
        (Inr True, out') \<Rightarrow> is_satisfied_by second candidate out'
      | (Inr False, out') \<Rightarrow> (Inr False, out')
      | (Inl err, out') \<Rightarrow> (Inl err, out'))"
| "is_satisfied_by (EmployerNameSpecification companies_expected n) candidate out =
     (case get_n_last_experiences candidate n of
        Inl err \<Rightarrow> (Inl err, out)
      | Inr experiences_to_be_checked \<Rightarrow>
          let employer_names = LowerCaseFrozenSet (company_name ` set experiences_to_be_checked)
          in if card (employer_names \<inter> companies_expected) \<noteq> 0 then (Inr True, out)
             else (Inr False,
                   out @ [Employer_message (first_name candidate) (last_name candidate)]))"
| "is_satisfied_by (LocationSpecification expected_locations) candidate out =
     (if country (location candidate) \<in> expected_locations
         \<or> city (location candidate) \<in> expected_locations
      then (Inr True, out)
      else (Inr False, out @ [Location_message (first_name candidate) (last_name candidate)]))"
| "is_satisfied_by (TotalWorkExperienceSpecification years_of_experience_expected
       comparison_operand count_overlapping_experiences) candidate out =
     (case count_years_of_experience candidate count_overlapping_experiences of
        Inl err \<Rightarrow> (Inl err, out)
      | Inr total_years_of_experience \<Rightarrow>
          (case comparison_functions comparison_operand of
             None \<Rightarrow> (Inl KeyError, out)
           | Some compare \<Rightarrow>
               if compare total_years_of_experience years_of_experience_expected
               then (Inr True, out)
               else (Inr False,
                     out @ [Total_experience_message (first_name candidate)
                              (last_name candidate)])))"
| "is_satisfied_by (SkillsSpecification expected_skills number_of_hits) candidate out =
     (let skills_to_be_checked = LowerCaseFrozenSet (set (skills candidate))
      in if has_intersection_or_is_subset skills_to_be_checked expected_skills number_of_hits
         then (Inr True, out)
         else (Inr False, out @ [Skills_message (first_name candidate) (last_name candidate)]))"
| "is_satisfied_by (SkillsAtWorkSpecification expected_skills n number_of_hits) candidate out =
     (case get_n_last_experiences_opt candidate n of
        Inl err \<Rightarrow> (Inl err, out)
      | Inr experiences_to_be_checked \<Rightarrow>
          let skills_to_be_checked =
                LowerCaseFrozenSet (\<Union>e \<in> set experiences_to_be_checked. set (exp_skills e))
          in if has_intersection_or_is_subset skills_to_be_checked expected_skills number_of_hits
             then (Inr True, out)
             else (Inr False,
                   out @ [Skills_at_work_message (first_name candidate) (last_name candidate)]))"
| "is_satisfied_by (PositionSpecification positions_expected n) candidate out =
     (case get_n_last_experiences_opt candidate n of
        Inl err \<Rightarrow> (Inl err, out)
      | Inr experiences_to_be_checked \<Rightarrow>
          let positions_held = LowerCaseFrozenSet (job_title ` set experiences_to_be_checked)
          in if card (positions_held \<inter> positions_expected) \<noteq> 0 then (Inr True, out)
             else (Inr False, out @ [Position_message]))"
| "is_satisfied_by (WorkExperienceLengthSpecification years_of_experience_expected
       comparison_operand n) candidate out =
     (case get_n_last_experiences candidate n of
        Inl err \<Rightarrow> (Inl err, out)
      | Inr last_n_experiences \<Rightarrow>
          (case intervals_of last_n_experiences of
             None \<Rightarrow> (Inl TypeError, out)
           | Some [] \<Rightarrow> (Inl ValueError_max_empty, out)
           | Some (first # rest) \<Rightarrow>
               let longest_experience = max_key (\<lambda>(start, stop). stop - start) first rest;
                   longest_experience_in_days = snd longest_experience - fst longest_experience;
                   longest_experience_in_years =
                     round1 (of_int longest_experience_in_days
                             / of_int NUMBER_OF_DAYS_IN_ONE_YEAR)
               in (case comparison_functions comparison_operand of
                     None \<Rightarrow> (Inl KeyError, out)
                   | Some compare \<Rightarrow>
                       if compare longest_experience_in_years years_of_experience_expected
                       then (Inr True, out)
                       else (Inr False, out @ [Experience_length_message]))))"

text \<open>
  A criterion's value: the dict read from the JSON configuration, one field for each key
  the factory looks up, \<open>None\<close> for a key that is absent. \<open>name\<close> is a string for an
  employer and a list of strings for skills and positions.
\<close>

datatype name_value = Name_str string | Name_list "string list"

record criteria_value =
  check_last_n_experiences :: "int option"
  name :: "name_value option"
  countries :: "string list option"
  cities :: "string list option"
  years :: "rat option"
  comparison_operand :: "string option"
  number_of_hits :: "int option"

text \<open>Iterating over a \<open>name\<close>: the members of a list, the one-character strings of a string.\<close>

definition name_members :: "name_value \<Rightarrow> string set" where
  "name_members v = (case v of Name_list l \<Rightarrow> set l | Name_str s \<Rightarrow> (\<lambda>c. [c]) ` set s)"

text \<open>
  The loop \<open>for index, country in enumerate(criteria_value['countries'])\<close> of the location
  branch. Its body ends with \<open>return LocationSpecification(countries)\<close>, so the first round
  returns and the rest of the list is never visited.
\<close>

fun location_loop :: "string list \<Rightarrow> nat \<Rightarrow> string list \<Rightarrow> base_specification option" where
  "location_loop all_countries index [] = None"
| "location_loop all_countries index (country_name # rest) =
     (let expected =
            (if upper country_name = ''EU''
             then set (take index all_countries) \<union> EU_COUNTRIES
                    \<union> set (drop (index + 1) all_countries)
             else set all_countries)
      in Some (LocationSpecification expected))"

definition specification_factory :: "string \<Rightarrow> criteria_value \<Rightarrow> error + base_specification option" where
  "specification_factory criteria_name criteria_value =
     (if (case check_last_n_experiences criteria_value of Some n \<Rightarrow> n < 1 | None \<Rightarrow> False)
      then Inl ValueError_window
      else if criteria_name = ''employer'' then
        (case name criteria_value of
           None \<Rightarrow> Inl KeyError
         | Some (Name_list l) \<Rightarrow> Inl TypeError
         | Some (Name_str s) \<Rightarrow>
             let companies_expected = (if s = ''FAANG'' then FAANG else LowerCaseFrozenSet {s})
             in (case check_last_n_experiences criteria_value of
                   None \<Rightarrow> Inl KeyError
                 | Some n \<Rightarrow> Inr (Some (EmployerNameSpecification companies_expected n))))
      else if criteria_name = ''location'' then
        (case countries criteria_value of
           None \<Rightarrow> Inl KeyError
         | Some [] \<Rightarrow>
             (case cities criteria_value of
                None \<Rightarrow> Inl KeyError
              | Some [] \<Rightarrow> Inl ValueError_location
              | Some cs \<Rightarrow> Inr (Some (LocationSpecification (set cs))))
         | Some cs \<Rightarrow> Inr (location_loop cs 0 cs))
      else if criteria_name = ''experience_total'' then
        (case (years criteria_value, comparison_operand criteria_value) of
           (Some y, Some operand) \<Rightarrow> Inr (Some (TotalWorkExperienceSpecification y operand False))
         | _ \<Rightarrow> Inl KeyError)
      else if criteria_name = ''skills'' then
        (case name criteria_value of
           None \<Rightarrow> Inl KeyError
         | Some v \<Rightarrow>
             Inr (Some (SkillsSpecification (LowerCaseFrozenSet (name_members v))
                          (number_of_hits criteria_value))))
      else if criteria_name = ''skills_at_work'' then
        (case name criteria_value of
           None \<Rightarrow> Inl KeyError
         | Some v \<Rightarrow>
             Inr (Some (SkillsAtWorkSpecification (LowerCaseFrozenSet (name_members v))
                          (check_last_n_experiences criteria_value)
                          (number_of_hits criteria_value))))
      else if criteria_name = ''position'' then
        (case name criteria_value of
           None \<Rightarrow> Inl KeyError
         | Some v \<Rightarrow>
             Inr (Some (PositionSpecification (LowerCaseFrozenSet (name_members v))
                          (check_last_n_experiences criteria_value))))
      else if criteria_name = ''duration_of_employment'' then
        (case (years criteria_value, comparison_operand criteria_value,
               check_last_n_experiences criteria_value) of
           (Some y, Some operand, Some n) \<Rightarrow>
             Inr (Some (WorkExperienceLengthSpecification y operand n))
         | _ \<Rightarrow> Inl KeyError)
      else Inr None)"

text \<open>
  \<open>chain_specifications_for_position\<close>. The configuration is the dict's items in
  insertion order. The first loop appends every specification the factory returns (an
  instance is always truthy, \<open>None\<close> is not); the second is
  \<open>for i in range(1, len(specifications))\<close>.
\<close>

fun build_specifications ::
  "(string \<times> criteria_value) list \<Rightarrow> base_specification list \<Rightarrow> error + base_specification list" where
  "build_specifications [] specifications = Inr specifications"
| "build_specifications ((criteria_name, criteria_value) # rest) specifications =
     (case specification_factory criteria_name criteria_value of
        Inl err \<Rightarrow> Inl err
      | Inr None \<Rightarrow> build_specifications rest specifications
      | Inr (Some built) \<Rightarrow>
          build_specifications rest (specifications @ [built]))"

definition chain_specifications_for_position ::
  "(string \<times> criteria_value) list \<Rightarrow> error + base_specification" where
  "chain_specifications_for_position target_profile_criteria =
     (case build_specifications target_profile_criteria [] of
        Inl err \<Rightarrow> Inl err
      | Inr [] \<Rightarrow> Inl ValueError_no_criteria
      | Inr (first # rest) \<Rightarrow>
          Inr (foldl (\<lambda>target_specification i.
                        AndSpecification target_specification ((first # rest) ! i))
                 first [1 ..< length (first # rest)]))"

section \<open>Notions used in the statements, and example data\<close>

text \<open>The invariant of an \<open>Experience\<close>: it has an end date, and starts before it.\<close>

definition valid_experience :: "experience \<Rightarrow> bool" where
  "valid_experience e = (case ends_at e of None \<Rightarrow> False | Some stop \<Rightarrow> starts_at e < stop)"

text \<open>
  The candidate of \<open>tests/test_specifications.py\<close>, with the list of experiences left
  open, and an experience with a given employer and dates.
\<close>

definition barcelona :: location where
  "barcelona = \<lparr>city = ''Barcelona'', country = ''Spain''\<rparr>"

definition job :: "string \<Rightarrow> date \<Rightarrow> date option \<Rightarrow> experience" where
  "job company start stop =
     \<lparr>company_name = company, job_title = ''UX Designer'', exp_description = [],
      exp_skills = [''Figma'', ''Miro''], starts_at = start, ends_at = stop,
      exp_location = barcelona\<rparr>"

definition candidate :: "experience list \<Rightarrow> profile" where
  "candidate exps =
     \<lparr>first_name = ''Sophia'', last_name = ''Garcia'', skills = [''Figma'', ''UX-research''],
      description = [], location = barcelona, experiences = exps\<rparr>"

text \<open>
  Criterion values for the examples: a dict without any of the keys, and dicts for a
  skills, a location and an employer criterion.
\<close>

definition no_parameters :: criteria_value where
  "no_parameters =
     \<lparr>check_last_n_experiences = None, name = None, countries = None, cities = None,
      years = None, comparison_operand = None, number_of_hits = None\<rparr>"

definition skills_criteria :: criteria_value where
  "skills_criteria = no_parameters\<lparr>name := Some (Name_list [''Figma'', ''Miro''])\<rparr>"

definition location_criteria :: criteria_value where
  "location_criteria = no_parameters\<lparr>countries := Some [''Germany''], cities := Some [''Barcelona'']\<rparr>"

definition employer_criteria :: "int \<Rightarrow> criteria_value" where
  "employer_criteria n = no_parameters\<lparr>name := Some (Name_str ''NASA''), check_last_n_experiences := Some n\<rparr>"

text \<open>
  The chain builder in the words of its description: the specifications the factory
  builds for the entries of the configuration, in the order of the entries, unrecognised
  names left out; and whether the factory raises on none of the entries.
\<close>

definition built_specifications :: "(string \<times> criteria_value) list \<Rightarrow> base_specification list" where
  "built_specifications config =
     concat (map (\<lambda>(criteria_name, criteria_value).
                    case specification_factory criteria_name criteria_value of
                      Inr (Some built) \<Rightarrow> [built]
                    | Inr None \<Rightarrow> []
                    | Inl err \<Rightarrow> []) config)"

definition factory_accepts :: "(string \<times> criteria_value) list \<Rightarrow> bool" where
  "factory_accepts config =
     list_all (\<lambda>(criteria_name, criteria_value).
                 case specification_factory criteria_name criteria_value of
                   Inr built \<Rightarrow> True
                 | Inl err \<Rightarrow> False) config"

text \<open>The error the factory raises for the first entry on which it raises, if any.\<close>

fun first_factory_error :: "(string \<times> criteria_value) list \<Rightarrow> error option" where
  "first_factory_error [] = None"
| "first_factory_error ((criteria_name, criteria_value) # rest) =
     (case specification_factory criteria_name criteria_value of
        Inl err \<Rightarrow> Some err
      | Inr built \<Rightarrow> first_factory_error rest)"

text \<open>Intervals that \<open>merge_intervals\<close> leaves alone: each starts after the previous one ends.\<close>

definition separated :: "(date \<times> date) list \<Rightarrow> bool" where
  "separated xs = successively (\<lambda>a b. snd a < fst b) xs"

section \<open>Interval merging\<close>

lemma separated_snoc:
  "separated (ys @ [x]) \<longleftrightarrow> separated ys \<and> (ys = [] \<or> snd (last ys) < fst x)"
  by (auto simp: separated_def successively_append_iff)

lemma merge_loop_nonempty: "acc \<noteq> [] \<Longrightarrow> merge_loop acc rest \<noteq> []"
  by (induction acc rest rule: merge_loop.induct) (auto simp: Let_def)

lemma merge_loop_separated:
  "acc \<noteq> [] \<Longrightarrow> separated acc \<Longrightarrow> separated (merge_loop acc rest)"
proof (induction rest arbitrary: acc)
  case Nil
  then show ?case by simp
next
  case (Cons iv rest)
  obtain s e where iv: "iv = (s, e)" by (cases iv)
  obtain ys a b where acc: "acc = ys @ [(a, b)]"
    using Cons.prems(1) by (metis rev_exhaust surj_pair)
  show ?case
  proof (cases "s \<le> b")
    case True
    have "separated (ys @ [(a, max b e)])"
      using Cons.prems(2) by (simp add: acc separated_snoc)
    then have "separated (merge_loop (ys @ [(a, max b e)]) rest)"
      by (intro Cons.IH) simp_all
    then show ?thesis using True by (simp add: iv acc)
  next
    case False
    have "snd (last acc) < s" using False by (simp add: acc)
    then have "separated (acc @ [(s, e)])"
      using Cons.prems separated_snoc [of acc "(s, e)"] by simp
    then have "separated (merge_loop (acc @ [(s, e)]) rest)"
      by (intro Cons.IH) simp_all
    then show ?thesis using False by (simp add: iv acc)
  qed
qed

text \<open>
  On separated intervals the loop only appends: no end is overwritten, so the second call
  of \<open>merge_intervals\<close> writes to no interval of its argument.
\<close>

lemma merge_loop_fixed:
  "acc \<noteq> [] \<Longrightarrow> separated (acc @ rest) \<Longrightarrow> merge_loop acc rest = acc @ rest"
proof (induction rest arbitrary: acc)
  case Nil
  then show ?case by simp
next
  case (Cons iv rest)
  obtain s e where iv: "iv = (s, e)" by (cases iv)
  have sep: "separated ((acc @ [(s, e)]) @ rest)"
    using Cons.prems(2) by (simp add: iv)
  then have "separated (acc @ [(s, e)])"
    unfolding separated_def successively_append_iff by blast
  then have gt: "snd (last acc) < s"
    using Cons.prems(1) by (simp add: separated_snoc)
  have "merge_loop (acc @ [(s, e)]) rest = (acc @ [(s, e)]) @ rest"
    using sep by (intro Cons.IH) simp_all
  then show ?case using gt by (simp add: iv)
qed

text \<open>
  C8. \<open>merge_intervals\<close> is idempotent: on every non-empty list of intervals (sorted by
  start or not) it returns a list, and applied to that list it returns the same list.
\<close>

theorem merge_intervals_idempotent:
  "intervals \<noteq> [] \<Longrightarrow>
   \<exists>merged. merge_intervals intervals = Inr merged \<and> merge_intervals merged = Inr merged"
proof -
  assume "intervals \<noteq> []"
  then obtain first rest where iv: "intervals = first # rest"
    by (cases intervals) auto
  let ?m = "merge_loop [first] rest"
  have sep: "separated ?m"
    by (rule merge_loop_separated) (simp_all add: separated_def)
  have "?m \<noteq> []" by (simp add: merge_loop_nonempty)
  then obtain f r where m: "?m = f # r" by (cases ?m) auto
  have "merge_loop [f] r = [f] @ r"
    using sep by (intro merge_loop_fixed) (simp_all add: m)
  then have "merge_intervals ?m = Inr ?m"
    by (simp add: merge_intervals_def m)
  then show ?thesis by (simp add: merge_intervals_def iv)
qed

theorem merge_intervals_idempotent_witness:
  "[(1, 5), (2, 3), (7, 9), (9, 12), (20, 21)] \<noteq> ([] :: (date \<times> date) list) \<and>
   merge_intervals [(1, 5), (2, 3), (7, 9), (9, 12), (20, 21)] = Inr [(1, 5), (7, 12), (20, 21)] \<and>
   merge_intervals [(1, 5), (7, 12), (20, 21)] = Inr [(1, 5), (7, 12), (20, 21)]"
  using merge_intervals_idempotent [of "[(1, 5), (2, 3), (7, 9), (9, 12), (20, 21)]"]
  by (simp add: merge_intervals_def)

section \<open>The profile model\<close>

subsection \<open>Total experience of a profile without experiences\<close>

text \<open>
  C1. A profile with no experience passes the validator unchanged.
  \<open>count_years_of_experience\<close> hands its empty list of intervals to \<open>merge_intervals\<close>
  without a guard, so with \<open>count_overlapping_experiences = False\<close> the call raises
  \<open>IndexError\<close>; with \<open>True\<close> the same profile has a total of \<open>0\<close> years.
\<close>

theorem count_years_of_experience_empty_profile_raises:
  "check_start_date_precedes_end_date today (candidate []) = candidate [] \<and>
   count_years_of_experience (candidate []) False = Inl IndexError \<and>
   count_years_of_experience (candidate []) True = Inr 0"
  by code_simp

subsection \<open>The validator\<close>

text \<open>
  C2. Of two consecutive experiences that both start after they end, the validator
  deletes the first and never visits the second: the constructed profile keeps an
  experience with \<open>starts_at = 7\<close> and \<open>ends_at = 2\<close>.
\<close>

theorem validator_keeps_second_of_two_invalid:
  "experiences (check_start_date_precedes_end_date 100
      (candidate [job ''Glovo'' 5 (Some 3), job ''BlaBlaCar'' 7 (Some 2)]))
     = [job ''BlaBlaCar'' 7 (Some 2)] \<and>
   ends_at (job ''BlaBlaCar'' 7 (Some 2)) = Some 2 \<and>
   \<not> starts_at (job ''BlaBlaCar'' 7 (Some 2)) < 2"
  by code_simp

subsection \<open>The last experiences\<close>

lemma map_nth_upto_drop:
  "a \<le> length xs \<Longrightarrow> map (\<lambda>i. xs ! nat i) [int a .. int (length xs) - 1] = drop a xs"
  by (rule nth_equalityI) (auto simp: nth_upto nat_add_distrib)

lemma slice_backwards_last_n:
  assumes "0 \<le> n" and "n < int (length xs)"
  shows "slice_backwards xs (- 1) (- n - 1) = take (nat n) (rev xs)"
proof -
  let ?len = "int (length xs)"
  have start: "slice_bound ?len (- 1) = ?len - 1"
    using assms by (simp add: slice_bound_def)
  have stop: "slice_bound ?len (- n - 1) + 1 = int (length xs - nat n)"
    using assms by (simp add: slice_bound_def)
  have "slice_backwards xs (- 1) (- n - 1)
          = rev (map (\<lambda>i. xs ! nat i) [int (length xs - nat n) .. ?len - 1])"
    unfolding slice_backwards_def Let_def start stop by (simp add: rev_map)
  also have "\<dots> = rev (drop (length xs - nat n) xs)"
    by (simp add: map_nth_upto_drop)
  also have "\<dots> = take (nat n) (rev xs)"
    by (simp add: take_rev)
  finally show ?thesis .
qed

text \<open>
  With fewer than all experiences asked for, the result is the \<open>n\<close> first of the
  experiences in descending order of \<open>ends_at\<close>: the branch of the slice does reverse.
\<close>

lemma get_n_last_experiences_fewer:
  assumes "0 \<le> n" and "n < int (length (experiences self))"
    and "None \<notin> ends_at ` set (experiences self)"
  shows "get_n_last_experiences self n
           = Inr (take (nat n) (rev (sort_key ends_at (experiences self))))"
  using assms
  by (auto simp: get_n_last_experiences_def get_experiences_sorted_by_def
        slice_backwards_last_n)

text \<open>
  C3. A valid profile with two experiences, both starting on day 1, one ending on day 10
  and one on day 20. Asked for its 2 last experiences, \<open>get_n_last_experiences\<close>
  returns the sorted list as it is, the experience ending on day 10 first: ascending, the
  most recent last. Asked for 1, it returns the experience ending on day 20.
\<close>

theorem get_n_last_experiences_all_is_ascending:
  "check_start_date_precedes_end_date 100
       (candidate [job ''Glovo'' 1 (Some 10), job ''BlaBlaCar'' 1 (Some 20)])
     = candidate [job ''Glovo'' 1 (Some 10), job ''BlaBlaCar'' 1 (Some 20)] \<and>
   get_n_last_experiences
       (candidate [job ''Glovo'' 1 (Some 10), job ''BlaBlaCar'' 1 (Some 20)]) 2
     = Inr [job ''Glovo'' 1 (Some 10), job ''BlaBlaCar'' 1 (Some 20)] \<and>
   get_n_last_experiences
       (candidate [job ''Glovo'' 1 (Some 10), job ''BlaBlaCar'' 1 (Some 20)]) 1
     = Inr [job ''BlaBlaCar'' 1 (Some 20)]"
  by code_simp

subsection \<open>Merged and raw years of experience\<close>

lemma round_half_even_mono:
  fixes x y :: rat
  assumes "x \<le> y"
  shows "(if x - of_int \<lfloor>x\<rfloor> < 1 / 2 then \<lfloor>x\<rfloor>
          else if 1 / 2 < x - of_int \<lfloor>x\<rfloor> then \<lfloor>x\<rfloor> + 1
          else if even \<lfloor>x\<rfloor> then \<lfloor>x\<rfloor> else \<lfloor>x\<rfloor> + 1)
       \<le> (if y - of_int \<lfloor>y\<rfloor> < 1 / 2 then \<lfloor>y\<rfloor>
          else if 1 / 2 < y - of_int \<lfloor>y\<rfloor> then \<lfloor>y\<rfloor> + 1
          else if even \<lfloor>y\<rfloor> then \<lfloor>y\<rfloor> else \<lfloor>y\<rfloor> + 1)"
proof -
  have fg: "\<lfloor>x\<rfloor> \<le> \<lfloor>y\<rfloor>" using assms by (rule floor_mono)
  show ?thesis
  proof (cases "\<lfloor>x\<rfloor> < \<lfloor>y\<rfloor>")
    case True
    then show ?thesis by auto
  next
    case False
    then have eq: "\<lfloor>x\<rfloor> = \<lfloor>y\<rfloor>" using fg by simp
    have "x - of_int \<lfloor>x\<rfloor> \<le> y - of_int \<lfloor>y\<rfloor>" using assms eq by simp
    then show ?thesis using eq by auto
  qed
qed

lemma round1_mono: "x \<le> y \<Longrightarrow> round1 x \<le> round1 y"
proof -
  assume "x \<le> y"
  then have "x * 10 \<le> y * 10" by simp
  from round_half_even_mono [OF this] show ?thesis
    unfolding round1_def Let_def by (simp add: divide_right_mono)
qed

lemma days_of_snoc: "days_of (ys @ [(a, b)]) = days_of ys + (b - a)"
  by (simp add: days_of_def)

lemma days_of_Cons: "days_of ((a, b) # ys) = (b - a) + days_of ys"
  by (simp add: days_of_def)

text \<open>Merging never adds days, as long as no merged-in interval ends before it starts.\<close>

lemma days_of_merge_loop:
  "acc \<noteq> [] \<Longrightarrow> list_all (\<lambda>(s, e). s \<le> e) rest \<Longrightarrow>
   days_of (merge_loop acc rest) \<le> days_of acc + days_of rest"
proof (induction rest arbitrary: acc)
  case Nil
  then show ?case by (simp add: days_of_def)
next
  case (Cons iv rest)
  obtain s e where iv: "iv = (s, e)" by (cases iv)
  obtain ys a b where acc: "acc = ys @ [(a, b)]"
    using Cons.prems(1) by (metis rev_exhaust surj_pair)
  have se: "s \<le> e" and rest: "list_all (\<lambda>(s, e). s \<le> e) rest"
    using Cons.prems(2) by (simp_all add: iv)
  show ?case
  proof (cases "s \<le> b")
    case True
    have "days_of (merge_loop (ys @ [(a, max b e)]) rest)
            \<le> days_of (ys @ [(a, max b e)]) + days_of rest"
      using rest by (intro Cons.IH) simp_all
    also have "\<dots> \<le> days_of acc + days_of (iv # rest)"
      using True se by (simp add: acc iv days_of_snoc days_of_Cons)
    finally show ?thesis using True by (simp add: iv acc)
  next
    case False
    have "days_of (merge_loop (acc @ [(s, e)]) rest)
            \<le> days_of (acc @ [(s, e)]) + days_of rest"
      using rest by (intro Cons.IH) simp_all
    also have "\<dots> = days_of acc + days_of (iv # rest)"
      by (simp add: iv days_of_snoc days_of_Cons)
    finally show ?thesis using False by (simp add: iv acc)
  qed
qed

lemma intervals_of_valid:
  "list_all valid_experience exps \<Longrightarrow>
   \<exists>ivs. intervals_of exps = Some ivs \<and> length ivs = length exps
          \<and> list_all (\<lambda>(s, e). s \<le> e) ivs"
proof (induction exps)
  case Nil
  then show ?case by (simp add: intervals_of_def)
next
  case (Cons x exps)
  then obtain ivs where ivs: "intervals_of exps = Some ivs" "length ivs = length exps"
      "list_all (\<lambda>(s, e). s \<le> e) ivs"
    by auto
  from Cons.prems obtain stop where stop: "ends_at x = Some stop" "starts_at x < stop"
    by (auto simp: valid_experience_def split: option.splits)
  have "intervals_of (x # exps) = Some ((starts_at x, stop) # ivs)"
    using ivs(1) stop(1) by (simp add: intervals_of_def)
  then show ?case using ivs stop by simp
qed

text \<open>
  On a profile with at least one experience, all of them valid, both totals exist and
  the merged one is at most the raw one.
\<close>

lemma count_years_merged_le_raw:
  assumes "experiences self \<noteq> []" and "list_all valid_experience (experiences self)"
  shows "\<exists>merged raw. count_years_of_experience self False = Inr merged
           \<and> count_years_of_experience self True = Inr raw \<and> merged \<le> raw"
proof -
  let ?sorted = "sort_key starts_at (experiences self)"
  have "list_all valid_experience ?sorted"
    using assms(2) by (simp add: list_all_iff)
  from intervals_of_valid [OF this] obtain ivs where
    ivs: "intervals_of ?sorted = Some ivs" "length ivs = length ?sorted"
      "list_all (\<lambda>(s, e). s \<le> e) ivs"
    by blast
  have "ivs \<noteq> []" using ivs(2) assms(1) by auto
  then obtain first rest where fr: "ivs = first # rest" by (cases ivs) auto
  obtain a b where ab: "first = (a, b)" by (cases first)
  have "days_of (merge_loop [first] rest) \<le> days_of [first] + days_of rest"
    using ivs(3) by (intro days_of_merge_loop) (simp_all add: fr)
  also have "\<dots> = days_of ivs" by (simp add: fr ab days_of_def)
  finally have "(of_int (days_of (merge_loop [first] rest)) :: rat) / 365
                  \<le> of_int (days_of ivs) / 365"
    by (simp add: divide_right_mono)
  then have "round1 (of_int (days_of (merge_loop [first] rest)) / 365)
               \<le> round1 (of_int (days_of ivs) / 365)"
    by (rule round1_mono)
  then show ?thesis
    using ivs(1) fr
    by (simp add: count_years_of_experience_def get_experiences_sorted_by_def
          merge_intervals_def NUMBER_OF_DAYS_IN_ONE_YEAR_def)
qed

text \<open>
  C7. Dates are day ordinals. Three raw experiences: days 737000 to 738000, then two
  that do not start before they end (day 737006 to day 737006, and day 737005 to day
  736005). The validator deletes the second and never visits the third, which stays in
  the profile. Merging absorbs it into the first interval, 1000 days or 2.7 years; the
  raw sum is 1000 - 1000 = 0 days, 0 years: the merged total exceeds the raw one.
\<close>

theorem merged_years_exceed_raw_years:
  "check_start_date_precedes_end_date 739000
       (candidate [job ''Glovo'' 737000 (Some 738000), job ''Miro'' 737006 (Some 737006),
                   job ''BlaBlaCar'' 737005 (Some 736005)])
     = candidate [job ''Glovo'' 737000 (Some 738000), job ''BlaBlaCar'' 737005 (Some 736005)] \<and>
   count_years_of_experience
       (candidate [job ''Glovo'' 737000 (Some 738000), job ''BlaBlaCar'' 737005 (Some 736005)])
       False
     = Inr (27 / 10) \<and>
   count_years_of_experience
       (candidate [job ''Glovo'' 737000 (Some 738000), job ''BlaBlaCar'' 737005 (Some 736005)])
       True
     = Inr 0"
  by code_simp

section \<open>Specifications\<close>

subsection \<open>The conjunction of two specifications\<close>

text \<open>
  A specification appends what it prints to the output, and its result does not depend
  on what was printed before.
\<close>

lemma is_satisfied_by_output:
  "is_satisfied_by s c out = (fst (is_satisfied_by s c []), out @ snd (is_satisfied_by s c []))"
proof (induction s arbitrary: out)
  case (AndSpecification s1 s2)
  obtain r1 m1 where r1: "is_satisfied_by s1 c [] = (r1, m1)" by (cases "is_satisfied_by s1 c []")
  obtain r2 m2 where r2: "is_satisfied_by s2 c [] = (r2, m2)" by (cases "is_satisfied_by s2 c []")
  have a: "is_satisfied_by s1 c out = (r1, out @ m1)" for out
    using AndSpecification.IH(1) [of out] by (simp add: r1)
  have b: "is_satisfied_by s2 c out = (r2, out @ m2)" for out
    using AndSpecification.IH(2) [of out] by (simp add: r2)
  show ?case
    by (cases r1; simp add: a b split: bool.splits)
next
  case (EmployerNameSpecification x1 x2)
  show ?case by (simp add: Let_def split: sum.splits)
next
  case (LocationSpecification x)
  show ?case by simp
next
  case (TotalWorkExperienceSpecification x1 x2 x3)
  show ?case by (simp split: sum.splits option.splits)
next
  case (SkillsSpecification x1 x2)
  show ?case by (simp add: Let_def)
next
  case (SkillsAtWorkSpecification x1 x2 x3)
  show ?case by (simp add: Let_def split: sum.splits)
next
  case (PositionSpecification x1 x2)
  show ?case by (simp add: Let_def split: sum.splits)
next
  case (WorkExperienceLengthSpecification x1 x2 x3)
  show ?case by (simp add: Let_def split: sum.splits option.splits list.splits)
qed

text \<open>
  C4, as the code has it. When both children return a verdict, the conjunction returns
  the logical AND of the two verdicts; it prints what the first child prints, followed by
  what the second child prints only if the first child is satisfied: \<open>and\<close> does not
  evaluate its second operand after a false first one.
\<close>

theorem and_specification_short_circuit:
  assumes "is_satisfied_by first p [] = (Inr v1, m1)"
    and "is_satisfied_by second p [] = (Inr v2, m2)"
  shows "is_satisfied_by (AndSpecification first second) p out
           = (Inr (v1 \<and> v2), out @ m1 @ (if v1 then m2 else []))"
proof -
  have a: "is_satisfied_by first p out = (Inr v1, out @ m1)"
    using is_satisfied_by_output [of first p out] assms(1) by simp
  have b: "is_satisfied_by second p (out @ m1) = (Inr v2, out @ m1 @ m2)"
    using is_satisfied_by_output [of second p "out @ m1"] assms(2) by simp
  show ?thesis by (cases v1) (simp_all add: a b)
qed

theorem and_specification_short_circuit_witness:
  "is_satisfied_by (LocationSpecification {''Spain''}) (candidate []) [] = (Inr True, []) \<and>
   is_satisfied_by (SkillsSpecification (LowerCaseFrozenSet {''Cooking''}) None) (candidate []) []
     = (Inr False, [Skills_message ''Sophia'' ''Garcia'']) \<and>
   is_satisfied_by
     (AndSpecification (LocationSpecification {''Spain''})
        (SkillsSpecification (LowerCaseFrozenSet {''Cooking''}) None)) (candidate []) []
     = (Inr False, [Skills_message ''Sophia'' ''Garcia''])"
proof -
  have a: "is_satisfied_by (LocationSpecification {''Spain''}) (candidate []) [] = (Inr True, [])"
    by code_simp
  have b: "is_satisfied_by (SkillsSpecification (LowerCaseFrozenSet {''Cooking''}) None)
             (candidate []) [] = (Inr False, [Skills_message ''Sophia'' ''Garcia''])"
    by code_simp
  show ?thesis
    using and_specification_short_circuit [OF a b, of "[]"] a b by simp
qed

text \<open>
  The candidate lives in Spain and has no skill \<open>cooking\<close>: a location specification
  for the Russian Federation and a skills specification for cooking are both unsatisfied,
  each printing its message. Their conjunction prints the message of the first only.
\<close>

theorem and_specification_second_message_missing:
  "is_satisfied_by (LocationSpecification {''Russian Federation''}) (candidate []) []
     = (Inr False, [Location_message ''Sophia'' ''Garcia'']) \<and>
   is_satisfied_by (SkillsSpecification (LowerCaseFrozenSet {''Cooking''}) None) (candidate []) []
     = (Inr False, [Skills_message ''Sophia'' ''Garcia'']) \<and>
   is_satisfied_by
     (AndSpecification (LocationSpecification {''Russian Federation''})
        (SkillsSpecification (LowerCaseFrozenSet {''Cooking''}) None)) (candidate []) []
     = (Inr False, [Location_message ''Sophia'' ''Garcia''])"
  by code_simp

subsection \<open>The hit rule\<close>

text \<open>
  Without a hit count the rule is the subset test; with a hit count other than 0 it is
  the exact size of the intersection.
\<close>

lemma has_intersection_or_is_subset_no_hits:
  "has_intersection_or_is_subset evaluated expected None \<longleftrightarrow> expected \<subseteq> evaluated"
  by (simp add: has_intersection_or_is_subset_def)

lemma has_intersection_or_is_subset_hits:
  "k \<noteq> 0 \<Longrightarrow>
   has_intersection_or_is_subset evaluated expected (Some k)
     \<longleftrightarrow> int (card (evaluated \<inter> expected)) = k"
  by (simp add: has_intersection_or_is_subset_def)

text \<open>The verdicts of the two skills specifications are this rule.\<close>

lemma skills_specification_hit_rule:
  "fst (is_satisfied_by (SkillsSpecification expected_skills hits) c out)
     = Inr (has_intersection_or_is_subset (LowerCaseFrozenSet (set (skills c))) expected_skills hits)"
  by (simp add: Let_def)

lemma skills_at_work_specification_hit_rule:
  "get_n_last_experiences_opt c n = Inr exps \<Longrightarrow>
   fst (is_satisfied_by (SkillsAtWorkSpecification expected_skills n hits) c out)
     = Inr (has_intersection_or_is_subset
              (LowerCaseFrozenSet (\<Union>e \<in> set exps. set (exp_skills e))) expected_skills hits)"
  by (simp add: Let_def)

text \<open>
  C6. A hit count of 0. The candidate has the skills Figma and UX-research. For the
  expected skill \<open>figma\<close> the intersection has one member, not zero, and the
  specification is satisfied; for the expected skill \<open>cooking\<close> the intersection has
  zero members, and the specification is unsatisfied: \<open>if number_of_hits:\<close> is false
  for 0, and the subset test is run in place of the count.
\<close>

theorem hit_count_zero_is_subset_test:
  "specification_factory ''skills''
       (no_parameters\<lparr>name := Some (Name_list [''Figma'']), number_of_hits := Some 0\<rparr>)
     = Inr (Some (SkillsSpecification {''figma''} (Some 0))) \<and>
   card (LowerCaseFrozenSet (set (skills (candidate []))) \<inter> {''figma''}) = 1 \<and>
   has_intersection_or_is_subset (LowerCaseFrozenSet (set (skills (candidate []))))
     {''figma''} (Some 0) \<and>
   is_satisfied_by (SkillsSpecification {''figma''} (Some 0)) (candidate []) []
     = (Inr True, []) \<and>
   card (LowerCaseFrozenSet (set (skills (candidate []))) \<inter> {''cooking''}) = 0 \<and>
   \<not> has_intersection_or_is_subset (LowerCaseFrozenSet (set (skills (candidate []))))
       {''cooking''} (Some 0) \<and>
   is_satisfied_by (SkillsSpecification {''cooking''} (Some 0)) (candidate []) []
     = (Inr False, [Skills_message ''Sophia'' ''Garcia''])"
  by code_simp

section \<open>The specification factory\<close>

subsection \<open>Location criteria\<close>

lemma upper_eu: "upper ''eu'' = ''EU''" "upper ''USA'' \<noteq> ''EU''"
  by code_simp+

lemma spain_in_eu: "''Spain'' \<in> EU_COUNTRIES"
  by (simp add: EU_COUNTRIES_def)

text \<open>
  C5. With the countries \<open>USA, eu\<close> the token \<open>eu\<close> is at index 1: the loop returns in
  its first round, and the expected set is the two literal strings, so that the candidate
  living in Spain is rejected. With \<open>eu\<close> at index 0 the expected set is the EU set
  with \<open>USA\<close>, and the same candidate is accepted.
\<close>

theorem eu_after_first_country_not_expanded:
  "specification_factory ''location''
       (no_parameters\<lparr>countries := Some [''USA'', ''eu''], cities := Some []\<rparr>)
     = Inr (Some (LocationSpecification {''USA'', ''eu''})) \<and>
   is_satisfied_by (LocationSpecification {''USA'', ''eu''}) (candidate []) []
     = (Inr False, [Location_message ''Sophia'' ''Garcia'']) \<and>
   specification_factory ''location''
       (no_parameters\<lparr>countries := Some [''eu'', ''USA''], cities := Some []\<rparr>)
     = Inr (Some (LocationSpecification (EU_COUNTRIES \<union> {''USA''}))) \<and>
   is_satisfied_by (LocationSpecification (EU_COUNTRIES \<union> {''USA''})) (candidate []) []
     = (Inr True, [])"
proof -
  have a: "specification_factory ''location''
       (no_parameters\<lparr>countries := Some [''USA'', ''eu''], cities := Some []\<rparr>)
     = Inr (Some (LocationSpecification {''USA'', ''eu''}))"
    by (simp add: specification_factory_def no_parameters_def upper_eu insert_commute)
  have b: "is_satisfied_by (LocationSpecification {''USA'', ''eu''}) (candidate []) []
     = (Inr False, [Location_message ''Sophia'' ''Garcia''])"
    by (simp add: candidate_def barcelona_def)
  have c: "specification_factory ''location''
       (no_parameters\<lparr>countries := Some [''eu'', ''USA''], cities := Some []\<rparr>)
     = Inr (Some (LocationSpecification (EU_COUNTRIES \<union> {''USA''})))"
    by (simp add: specification_factory_def no_parameters_def upper_eu)
  have d: "is_satisfied_by (LocationSpecification (EU_COUNTRIES \<union> {''USA''})) (candidate []) []
     = (Inr True, [])"
    by (simp add: candidate_def barcelona_def spain_in_eu)
  show ?thesis using a b c d by simp
qed

text \<open>
  C10. Provided a \<open>check_last_n_experiences\<close> key, if present, is at least 1: when the
  countries list is not empty, the factory builds the same location specification
  whatever the cities entry is, with an expected set made of the countries alone (the
  EU set in place of a first entry \<open>EU\<close>), and a profile whose country and city are
  both outside that set is rejected with a message, also when its city is one of the
  configured cities. When the countries list is empty and the cities list is not, the
  expected set is the set of the cities.
\<close>

theorem location_expected_set_ignores_cities:
  assumes "\<forall>n. check_last_n_experiences cv = Some n \<longrightarrow> 1 \<le> n"
  shows
   "(countries cv = Some (first # rest) \<longrightarrow>
       specification_factory ''location'' (cv\<lparr>cities := any_cities\<rparr>)
         = Inr (Some (LocationSpecification
                        (if upper first = ''EU'' then EU_COUNTRIES \<union> set rest
                         else set (first # rest)))) \<and>
       (country (location p)
            \<notin> (if upper first = ''EU'' then EU_COUNTRIES \<union> set rest else set (first # rest)) \<and>
        city (location p)
            \<notin> (if upper first = ''EU'' then EU_COUNTRIES \<union> set rest else set (first # rest))
        \<longrightarrow> is_satisfied_by
              (LocationSpecification
                 (if upper first = ''EU'' then EU_COUNTRIES \<union> set rest else set (first # rest)))
              p out
            = (Inr False, out @ [Location_message (first_name p) (last_name p)]))) \<and>
    (countries cv = Some [] \<and> cities cv = Some (c # cs) \<longrightarrow>
       specification_factory ''location'' cv = Inr (Some (LocationSpecification (set (c # cs)))))"
proof -
  have window: "\<not> (case check_last_n_experiences cv of Some n \<Rightarrow> n < 1 | None \<Rightarrow> False)"
    using assms by (auto split: option.splits)
  have a: "specification_factory ''location'' (cv\<lparr>cities := any_cities\<rparr>)
         = Inr (Some (LocationSpecification
                        (if upper first = ''EU'' then EU_COUNTRIES \<union> set rest
                         else set (first # rest))))"
    if "countries cv = Some (first # rest)"
    using that window by (simp add: specification_factory_def)
  have b: "specification_factory ''location'' cv = Inr (Some (LocationSpecification (set (c # cs))))"
    if "countries cv = Some []" "cities cv = Some (c # cs)"
    using that window by (simp add: specification_factory_def)
  show ?thesis using a b by simp
qed

theorem location_expected_set_ignores_cities_witness:
  "specification_factory ''location'' location_criteria
     = Inr (Some (LocationSpecification {''Germany''})) \<and>
   city (location (candidate [])) \<in> set [''Barcelona''] \<and>
   is_satisfied_by (LocationSpecification {''Germany''}) (candidate []) []
     = (Inr False, [Location_message ''Sophia'' ''Garcia'']) \<and>
   specification_factory ''location''
       (no_parameters\<lparr>countries := Some [], cities := Some [''Barcelona'']\<rparr>)
     = Inr (Some (LocationSpecification {''Barcelona''}))"
proof -
  have w: "\<forall>n. check_last_n_experiences location_criteria = Some n \<longrightarrow> 1 \<le> n"
          "\<forall>n. check_last_n_experiences
                  (no_parameters\<lparr>countries := Some [], cities := Some [''Barcelona'']\<rparr>) = Some n
               \<longrightarrow> 1 \<le> n"
    by (simp_all add: location_criteria_def no_parameters_def)
  have u: "upper ''Germany'' \<noteq> ''EU''" by (simp add: upper_def)
  have c: "countries location_criteria = Some [''Germany'']"
          "location_criteria\<lparr>cities := Some [''Barcelona'']\<rparr> = location_criteria"
          "countries (no_parameters\<lparr>countries := Some [], cities := Some [''Barcelona'']\<rparr>) = Some []"
          "cities (no_parameters\<lparr>countries := Some [], cities := Some [''Barcelona'']\<rparr>)
             = Some [''Barcelona'']"
    by (simp_all add: location_criteria_def no_parameters_def)
  have p: "country (location (candidate [])) = ''Spain''" "city (location (candidate [])) = ''Barcelona''"
          "first_name (candidate []) = ''Sophia''" "last_name (candidate []) = ''Garcia''"
    by (simp_all add: candidate_def barcelona_def)
  show ?thesis
    using location_expected_set_ignores_cities
            [OF w(1), of "''Germany''" "[]" "Some [''Barcelona'']" "candidate []" "[]"]
          location_expected_set_ignores_cities
            [OF w(2), of _ _ _ _ _ "''Barcelona''" "[]"]
          u c p
    by simp
qed

section \<open>The chain builder\<close>

lemma factory_never_no_criteria:
  "specification_factory criteria_name criteria_value \<noteq> Inl ValueError_no_criteria"
  by (simp add: specification_factory_def Let_def
        split: option.splits name_value.splits list.splits)

lemma build_specifications_accepts:
  "factory_accepts config \<Longrightarrow>
   build_specifications config acc = Inr (acc @ built_specifications config)"
proof (induction config arbitrary: acc)
  case Nil
  then show ?case by (simp add: built_specifications_def)
next
  case (Cons entry config)
  obtain n v where entry: "entry = (n, v)" by (cases entry)
  from Cons.prems have rest: "factory_accepts config"
    by (simp add: factory_accepts_def)
  from Cons.prems obtain built where built: "specification_factory n v = Inr built"
    by (auto simp: factory_accepts_def entry split: sum.splits)
  show ?case
    using Cons.IH [OF rest] built
    by (cases built) (simp_all add: entry built_specifications_def)
qed

lemma build_specifications_rejects:
  "\<not> factory_accepts config \<Longrightarrow>
   \<exists>err. first_factory_error config = Some err
         \<and> build_specifications config acc = Inl err \<and> err \<noteq> ValueError_no_criteria"
proof (induction config arbitrary: acc)
  case Nil
  then show ?case by (simp add: factory_accepts_def)
next
  case (Cons entry config)
  obtain n v where entry: "entry = (n, v)" by (cases entry)
  show ?case
  proof (cases "specification_factory n v")
    case (Inl err)
    then have "err \<noteq> ValueError_no_criteria"
      using factory_never_no_criteria [of n v] by auto
    then show ?thesis using Inl by (simp add: entry)
  next
    case (Inr built)
    then have "\<not> factory_accepts config"
      using Cons.prems by (simp add: factory_accepts_def entry)
    from Cons.IH [OF this] show ?thesis
      using Inr by (cases built) (simp_all add: entry)
  qed
qed

lemma and_loop_foldl:
  "foldl (\<lambda>target i. AndSpecification target ((first # rest) ! i)) first
      [1 ..< length (first # rest)]
   = foldl AndSpecification first rest"
proof -
  have "[1 ..< length (first # rest)] = map Suc [0 ..< length rest]"
    by (simp add: map_Suc_upt del: upt_Suc)
  then have "map ((!) (first # rest)) [1 ..< length (first # rest)]
               = map ((!) rest) [0 ..< length rest]"
    by (simp add: o_def del: upt_Suc)
  then have "map ((!) (first # rest)) [1 ..< length (first # rest)] = rest"
    by (simp only: map_nth)
  then have "foldl AndSpecification first rest
               = foldl AndSpecification first (map ((!) (first # rest)) [1 ..< length (first # rest)])"
    by simp
  also have "\<dots> = foldl (\<lambda>target i. AndSpecification target ((first # rest) ! i)) first
      [1 ..< length (first # rest)]"
    by (simp only: foldl_map)
  finally show ?thesis by simp
qed

text \<open>
  C9, as the code has it. \<open>chain_specifications_for_position\<close> raises its own error
  (no valid criteria) iff the factory raises on no entry and builds no specification.
  When the factory raises on no entry and builds at least one specification, the result
  is the AND-fold, from the left, of the built specifications in the order of the
  entries. When the factory raises on some entry, the chain builder raises the error of
  the first such entry, which is never its own error.
\<close>

theorem chain_specifications_for_position_result:
  "(chain_specifications_for_position config = Inl ValueError_no_criteria
      \<longleftrightarrow> factory_accepts config \<and> built_specifications config = []) \<and>
   (factory_accepts config \<and> built_specifications config = first # rest
      \<longrightarrow> chain_specifications_for_position config = Inr (foldl AndSpecification first rest)) \<and>
   (\<not> factory_accepts config
      \<longrightarrow> (\<exists>err. first_factory_error config = Some err
                 \<and> chain_specifications_for_position config = Inl err
                 \<and> err \<noteq> ValueError_no_criteria))"
proof (cases "factory_accepts config")
  case True
  have b: "build_specifications config [] = Inr (built_specifications config)"
    using build_specifications_accepts [OF True, of "[]"] by simp
  show ?thesis
  proof (cases "built_specifications config")
    case Nil
    then show ?thesis using True b by (simp add: chain_specifications_for_position_def)
  next
    case (Cons f r)
    have "chain_specifications_for_position config = Inr (foldl AndSpecification f r)"
      unfolding chain_specifications_for_position_def b Cons
      by (simp only: sum.case list.case and_loop_foldl)
    then show ?thesis using True Cons by auto
  qed
next
  case False
  from build_specifications_rejects [OF False, of "[]"] obtain err where
    "first_factory_error config = Some err" "build_specifications config [] = Inl err"
    "err \<noteq> ValueError_no_criteria" by blast
  then show ?thesis using False by (simp add: chain_specifications_for_position_def)
qed

lemma ex_factory:
  "specification_factory ''skills'' skills_criteria
     = Inr (Some (SkillsSpecification {''figma'', ''miro''} None))"
  "specification_factory ''seniority'' no_parameters = Inr None"
  "specification_factory ''location'' location_criteria
     = Inr (Some (LocationSpecification {''Germany''}))"
  "specification_factory ''employer'' (employer_criteria 0) = Inl ValueError_window"
  "specification_factory ''location'' (no_parameters\<lparr>countries := Some [], cities := Some []\<rparr>)
     = Inl ValueError_location"
  by code_simp+

theorem chain_specifications_for_position_result_witness:
  "factory_accepts [(''skills'', skills_criteria), (''seniority'', no_parameters),
                    (''location'', location_criteria)] \<and>
   built_specifications [(''skills'', skills_criteria), (''seniority'', no_parameters),
                         (''location'', location_criteria)]
     = [SkillsSpecification {''figma'', ''miro''} None, LocationSpecification {''Germany''}] \<and>
   chain_specifications_for_position
       [(''skills'', skills_criteria), (''seniority'', no_parameters),
        (''location'', location_criteria)]
     = Inr (AndSpecification (SkillsSpecification {''figma'', ''miro''} None)
              (LocationSpecification {''Germany''})) \<and>
   factory_accepts [(''seniority'', no_parameters)] \<and>
   built_specifications [(''seniority'', no_parameters)] = [] \<and>
   chain_specifications_for_position [(''seniority'', no_parameters)] = Inl ValueError_no_criteria \<and>
   \<not> factory_accepts
       [(''seniority'', no_parameters),
        (''location'', no_parameters\<lparr>countries := Some [], cities := Some []\<rparr>),
        (''employer'', employer_criteria 0)] \<and>
   first_factory_error
       [(''seniority'', no_parameters),
        (''location'', no_parameters\<lparr>countries := Some [], cities := Some []\<rparr>),
        (''employer'', employer_criteria 0)]
     = Some ValueError_location \<and>
   chain_specifications_for_position
       [(''seniority'', no_parameters),
        (''location'', no_parameters\<lparr>countries := Some [], cities := Some []\<rparr>),
        (''employer'', employer_criteria 0)]
     = Inl ValueError_location"
proof -
  let ?bad = "[(''seniority'', no_parameters),
               (''location'', no_parameters\<lparr>countries := Some [], cities := Some []\<rparr>),
               (''employer'', employer_criteria 0)]"
  have e: "\<not> factory_accepts ?bad"
    by (simp add: factory_accepts_def ex_factory)
  have f: "first_factory_error ?bad = Some ValueError_location"
    by (simp add: ex_factory)
  let ?config = "[(''skills'', skills_criteria), (''seniority'', no_parameters),
                  (''location'', location_criteria)]"
  have a: "factory_accepts ?config"
    by (simp add: factory_accepts_def ex_factory)
  have b: "built_specifications ?config
             = [SkillsSpecification {''figma'', ''miro''} None, LocationSpecification {''Germany''}]"
    by (simp add: built_specifications_def ex_factory)
  have c: "factory_accepts [(''seniority'', no_parameters)]"
    by (simp add: factory_accepts_def ex_factory)
  have d: "built_specifications [(''seniority'', no_parameters)] = []"
    by (simp add: built_specifications_def ex_factory)
  show ?thesis
    using chain_specifications_for_position_result
            [of ?config "SkillsSpecification {''figma'', ''miro''} None"
                "[LocationSpecification {''Germany''}]"]
          chain_specifications_for_position_result [of "[(''seniority'', no_parameters)]"]
          chain_specifications_for_position_result [of ?bad]
          a b c d e f
    by simp
qed

text \<open>
  A configuration with a valid skills criterion and an employer criterion whose window
  is 0: the factory builds the skills specification, then raises for the employer
  entry, and the chain builder raises that error instead of returning a chain.
\<close>

theorem chain_raises_despite_valid_criterion:
  "specification_factory ''skills'' skills_criteria
     = Inr (Some (SkillsSpecification {''figma'', ''miro''} None)) \<and>
   chain_specifications_for_position
       [(''skills'', skills_criteria), (''employer'', employer_criteria 0)]
     = Inl ValueError_window"
  by (simp add: chain_specifications_for_position_def ex_factory)

end
